theory Spec2Isabelle
  imports Complex_Main
begin

section \<open>Errors, object identity and dense arrays\<close>

text \<open>
  The exceptions the library raises. \<open>ValueError\<close> carries the fixed part of the
  message, so that the different validation failures stay apart.
\<close>

datatype error =
    ValueError string
  | RuntimeError string
  | NotImplementedError string
  | AttributeError
  | IndexError
  | TypeError
  | AssertionError
  | LinAlgError

text \<open>
  A property such as \<open>T\<close> or \<open>inv\<close> either executes \<open>return self\<close> or builds a
  new object through a constructor call. \<open>Self\<close> stands for the very object the
  property was read from, \<open>New m\<close> for a freshly allocated object with value \<open>m\<close>:
  Python's \<open>x.T is x\<close> holds exactly when the property answers \<open>Self\<close>.
\<close>

datatype 'a ref = Self | New 'a

definition deref :: "'a \<Rightarrow> 'a ref \<Rightarrow> 'a" where
  "deref self r = (case r of Self \<Rightarrow> self | New m \<Rightarrow> m)"

definition ref_value :: "'a \<Rightarrow> error + 'a ref \<Rightarrow> error + 'a" where
  "ref_value self r = (case r of Inl e \<Rightarrow> Inl e | Inr x \<Rightarrow> Inr (deref self x))"

fun sequence_err :: "(error + 'a) list \<Rightarrow> error + 'a list" where
  "sequence_err [] = Inr []"
| "sequence_err (x # xs) =
     (case x of Inl e \<Rightarrow> Inl e
      | Inr y \<Rightarrow> (case sequence_err xs of Inl e \<Rightarrow> Inl e | Inr ys \<Rightarrow> Inr (y # ys)))"

text \<open>
  A two-dimensional numpy array: its shape \<open>(nrows, ncols)\<close> and its rows. Floats are
  read as exact reals. One-dimensional arrays (diagonals, eigenvalues) are \<open>real list\<close>.
\<close>

datatype array2 = Array2 (nrows: nat) (ncols: nat) (rows: "real list list")

definition entry :: "array2 \<Rightarrow> nat \<Rightarrow> nat \<Rightarrow> real" where
  "entry a i j = rows a ! i ! j"

definition tabulate2 :: "nat \<Rightarrow> nat \<Rightarrow> (nat \<Rightarrow> nat \<Rightarrow> real) \<Rightarrow> array2" where
  "tabulate2 r c f = Array2 r c (map (\<lambda>i. map (\<lambda>j. f i j) [0..<c]) [0..<r])"

definition wf_array :: "array2 \<Rightarrow> bool" where
  "wf_array a = (length (rows a) = nrows a \<and> list_all (\<lambda>row. length row = ncols a) (rows a))"

text \<open>\<open>a.T\<close>, \<open>np.tril(a)\<close>, \<open>np.triu(a)\<close>, \<open>c * a\<close> and \<open>a + b\<close> (equal shapes).\<close>

definition array_T :: "array2 \<Rightarrow> array2" where
  "array_T a = tabulate2 (ncols a) (nrows a) (\<lambda>i j. entry a j i)"

definition tril :: "array2 \<Rightarrow> array2" where
  "tril a = tabulate2 (nrows a) (ncols a) (\<lambda>i j. if j \<le> i then entry a i j else 0)"

definition triu :: "array2 \<Rightarrow> array2" where
  "triu a = tabulate2 (nrows a) (ncols a) (\<lambda>i j. if i \<le> j then entry a i j else 0)"

definition array_scale :: "real \<Rightarrow> array2 \<Rightarrow> array2" where
  "array_scale c a = tabulate2 (nrows a) (ncols a) (\<lambda>i j. c * entry a i j)"

definition array_add :: "array2 \<Rightarrow> array2 \<Rightarrow> array2" where
  "array_add a b = tabulate2 (nrows a) (ncols a) (\<lambda>i j. entry a i j + entry b i j)"

definition array_matmul :: "array2 \<Rightarrow> array2 \<Rightarrow> array2" where
  "array_matmul a b =
     tabulate2 (nrows a) (ncols b) (\<lambda>i j. \<Sum>k\<leftarrow>[0..<ncols a]. entry a i k * entry b k j)"

definition identity :: "nat \<Rightarrow> array2" where
  "identity n = tabulate2 n n (\<lambda>i j. if i = j then 1 else 0)"

section \<open>The matrix classes\<close>

text \<open>
  One constructor per concrete class of \<open>matrices.py\<close>, holding the attributes its
  \<open>__init__\<close> stores. Lazily computed caches that are a function of the other
  attributes (the dense array of an implicit matrix, the eigendecomposition of a
  symmetric matrix) are not stored; the optional constructor arguments that double as
  caches (\<open>factor\<close>, \<open>lu_and_piv\<close>, \<open>lu_transposed\<close>, \<open>eigvec\<close>, \<open>eigval\<close>,
  \<open>capacitance_matrix\<close>) are \<open>option\<close> fields. The low-rank updates store
  left factor, right factor, square matrix, inner matrix, capacitance matrix and sign.
\<close>

datatype matrix =
    MatrixProduct "matrix list"
  | IdentityMatrix "nat option"
  | ScaledIdentityMatrix real "nat option"
  | PositiveScaledIdentityMatrix real "nat option"
  | DiagonalMatrix "real list"
  | PositiveDiagonalMatrix "real list"
  | TriangularMatrix array2 bool
  | InverseTriangularMatrix array2 bool
  | TriangularFactoredDefiniteMatrix matrix int
  | TriangularFactoredPositiveDefiniteMatrix matrix
  | DenseDefiniteMatrix array2 "matrix option" int
  | DensePositiveDefiniteMatrix array2 "matrix option"
  | DensePositiveDefiniteProductMatrix matrix matrix array2 "matrix option"
  | DenseSquareMatrix array2 "(array2 \<times> nat list) option" "bool option"
  | InverseLUFactoredSquareMatrix array2 "array2 \<times> nat list" "bool option"
  | DenseSymmetricMatrix array2 "matrix option" "real list option"
  | OrthogonalMatrix array2
  | ScaledOrthogonalMatrix real array2
  | EigendecomposedSymmetricMatrix matrix "real list"
  | EigendecomposedPositiveDefiniteMatrix matrix "real list"
  | SoftAbsRegularisedPositiveDefiniteMatrix real "real list" matrix "real list"
  | SquareBlockDiagonalMatrix "matrix list"
  | SymmetricBlockDiagonalMatrix "matrix list"
  | PositiveDefiniteBlockDiagonalMatrix "matrix list"
  | DenseRectangularMatrix array2
  | BlockRowMatrix "matrix list"
  | BlockColumnMatrix "matrix list"
  | SquareLowRankUpdateMatrix matrix matrix matrix matrix "matrix option" int
  | SymmetricLowRankUpdateMatrix matrix matrix matrix matrix "matrix option" int
  | PositiveDefiniteLowRankUpdateMatrix matrix matrix matrix matrix "matrix option" int

type_synonym dims = "nat option \<times> nat option"

text \<open>\<open>sum(dims)\<close> over block dimensions; \<open>None\<close> when a dimension is unspecified
  (the constructor then raises \<open>TypeError\<close>).\<close>

fun sum_dims :: "nat option list \<Rightarrow> nat option" where
  "sum_dims [] = Some 0"
| "sum_dims (None # ds) = None"
| "sum_dims (Some d # ds) = (case sum_dims ds of None \<Rightarrow> None | Some s \<Rightarrow> Some (d + s))"

text \<open>
  \<open>Matrix.shape\<close>: the tuple the constructor chain hands to \<open>Matrix.__init__\<close>,
  computed from the stored attributes as each \<open>__init__\<close> does. A product chain is
  never empty (\<open>MatrixProduct.__init__\<close> indexes its first factor), nor is a block row
  or column.
\<close>

fun shape :: "matrix \<Rightarrow> dims" where
  "shape (MatrixProduct ms) =
     (case map shape ms of [] \<Rightarrow> (None, None) | s # ss \<Rightarrow> (fst s, snd (last (s # ss))))"
| "shape (IdentityMatrix n) = (n, n)"
| "shape (ScaledIdentityMatrix c n) = (n, n)"
| "shape (PositiveScaledIdentityMatrix c n) = (n, n)"
| "shape (DiagonalMatrix d) = (Some (length d), Some (length d))"
| "shape (PositiveDiagonalMatrix d) = (Some (length d), Some (length d))"
| "shape (TriangularMatrix a lower) = (Some (nrows a), Some (nrows a))"
| "shape (InverseTriangularMatrix a lower) = (Some (nrows a), Some (nrows a))"
| "shape (TriangularFactoredDefiniteMatrix f s) = (fst (shape f), fst (shape f))"
| "shape (TriangularFactoredPositiveDefiniteMatrix f) = (fst (shape f), fst (shape f))"
| "shape (DenseDefiniteMatrix a f s) = (Some (nrows a), Some (nrows a))"
| "shape (DensePositiveDefiniteMatrix a f) = (Some (nrows a), Some (nrows a))"
| "shape (DensePositiveDefiniteProductMatrix r p a f) = (Some (nrows a), Some (nrows a))"
| "shape (DenseSquareMatrix a lu t) = (Some (nrows a), Some (nrows a))"
| "shape (InverseLUFactoredSquareMatrix a lu t) = (Some (nrows a), Some (nrows a))"
| "shape (DenseSymmetricMatrix a v w) = (Some (nrows a), Some (nrows a))"
| "shape (OrthogonalMatrix a) = (Some (nrows a), Some (nrows a))"
| "shape (ScaledOrthogonalMatrix c a) = (Some (nrows a), Some (nrows a))"
| "shape (EigendecomposedSymmetricMatrix v w) = (fst (shape v), fst (shape v))"
| "shape (EigendecomposedPositiveDefiniteMatrix v w) = (fst (shape v), fst (shape v))"
| "shape (SoftAbsRegularisedPositiveDefiniteMatrix c u v w) = (fst (shape v), fst (shape v))"
| "shape (SquareBlockDiagonalMatrix bs) =
     (sum_dims (map (\<lambda>b. fst (shape b)) bs), sum_dims (map (\<lambda>b. fst (shape b)) bs))"
| "shape (SymmetricBlockDiagonalMatrix bs) =
     (sum_dims (map (\<lambda>b. fst (shape b)) bs), sum_dims (map (\<lambda>b. fst (shape b)) bs))"
| "shape (PositiveDefiniteBlockDiagonalMatrix bs) =
     (sum_dims (map (\<lambda>b. fst (shape b)) bs), sum_dims (map (\<lambda>b. fst (shape b)) bs))"
| "shape (DenseRectangularMatrix a) = (Some (nrows a), Some (ncols a))"
| "shape (BlockRowMatrix bs) =
     (case map shape bs of [] \<Rightarrow> (None, None) | s # ss \<Rightarrow> (fst s, sum_dims (map snd (s # ss))))"
| "shape (BlockColumnMatrix bs) =
     (case map shape bs of [] \<Rightarrow> (None, None) | s # ss \<Rightarrow> (sum_dims (map fst (s # ss)), snd s))"
| "shape (SquareLowRankUpdateMatrix l r s k c sg) = (fst (shape l), fst (shape l))"
| "shape (SymmetricLowRankUpdateMatrix l r s k c sg) = (fst (shape l), fst (shape l))"
| "shape (PositiveDefiniteLowRankUpdateMatrix l r s k c sg) = (fst (shape l), fst (shape l))"

text \<open>\<open>isinstance(m, MatrixProduct)\<close>; the class has no subclass.\<close>

fun is_MatrixProduct :: "matrix \<Rightarrow> bool" where
  "is_MatrixProduct (MatrixProduct ms) = True"
| "is_MatrixProduct m = False"

text \<open>\<open>MatrixProduct.__init__\<close>: \<open>self._matrices[0]\<close> raises on an empty tuple.\<close>

definition MatrixProduct_init :: "matrix list \<Rightarrow> error + matrix" where
  "MatrixProduct_init ms = (if ms = [] then Inl IndexError else Inr (MatrixProduct ms))"

text \<open>\<open>MatrixProduct.matrices\<close>.\<close>

fun matrices :: "matrix \<Rightarrow> matrix list" where
  "matrices (MatrixProduct ms) = ms"
| "matrices m = []"

text \<open>\<open>isinstance\<close> against the capability classes, read off the class statements.
  \<open>SymmetricBlockDiagonalMatrix\<close> derives from \<open>SquareBlockDiagonalMatrix\<close> only, so
  it is not an instance of \<open>SymmetricMatrix\<close>.\<close>

fun is_SquareMatrix :: "matrix \<Rightarrow> bool" where
  "is_SquareMatrix (MatrixProduct ms) = False"
| "is_SquareMatrix (DenseRectangularMatrix a) = False"
| "is_SquareMatrix (BlockRowMatrix bs) = False"
| "is_SquareMatrix (BlockColumnMatrix bs) = False"
| "is_SquareMatrix m = True"

fun is_SymmetricMatrix :: "matrix \<Rightarrow> bool" where
  "is_SymmetricMatrix (IdentityMatrix n) = True"
| "is_SymmetricMatrix (ScaledIdentityMatrix c n) = True"
| "is_SymmetricMatrix (PositiveScaledIdentityMatrix c n) = True"
| "is_SymmetricMatrix (DiagonalMatrix d) = True"
| "is_SymmetricMatrix (PositiveDiagonalMatrix d) = True"
| "is_SymmetricMatrix (TriangularFactoredDefiniteMatrix f s) = True"
| "is_SymmetricMatrix (TriangularFactoredPositiveDefiniteMatrix f) = True"
| "is_SymmetricMatrix (DenseDefiniteMatrix a f s) = True"
| "is_SymmetricMatrix (DensePositiveDefiniteMatrix a f) = True"
| "is_SymmetricMatrix (DensePositiveDefiniteProductMatrix r p a f) = True"
| "is_SymmetricMatrix (DenseSymmetricMatrix a v w) = True"
| "is_SymmetricMatrix (EigendecomposedSymmetricMatrix v w) = True"
| "is_SymmetricMatrix (EigendecomposedPositiveDefiniteMatrix v w) = True"
| "is_SymmetricMatrix (SoftAbsRegularisedPositiveDefiniteMatrix c u v w) = True"
| "is_SymmetricMatrix (PositiveDefiniteBlockDiagonalMatrix bs) = True"
| "is_SymmetricMatrix (SymmetricLowRankUpdateMatrix l r s k c sg) = True"
| "is_SymmetricMatrix (PositiveDefiniteLowRankUpdateMatrix l r s k c sg) = True"
| "is_SymmetricMatrix m = False"

fun is_PositiveDefiniteMatrix :: "matrix \<Rightarrow> bool" where
  "is_PositiveDefiniteMatrix (IdentityMatrix n) = True"
| "is_PositiveDefiniteMatrix (PositiveScaledIdentityMatrix c n) = True"
| "is_PositiveDefiniteMatrix (PositiveDiagonalMatrix d) = True"
| "is_PositiveDefiniteMatrix (TriangularFactoredPositiveDefiniteMatrix f) = True"
| "is_PositiveDefiniteMatrix (DensePositiveDefiniteMatrix a f) = True"
| "is_PositiveDefiniteMatrix (DensePositiveDefiniteProductMatrix r p a f) = True"
| "is_PositiveDefiniteMatrix (EigendecomposedPositiveDefiniteMatrix v w) = True"
| "is_PositiveDefiniteMatrix (SoftAbsRegularisedPositiveDefiniteMatrix c u v w) = True"
| "is_PositiveDefiniteMatrix (PositiveDefiniteBlockDiagonalMatrix bs) = True"
| "is_PositiveDefiniteMatrix (PositiveDefiniteLowRankUpdateMatrix l r s k c sg) = True"
| "is_PositiveDefiniteMatrix m = False"

section \<open>Constructors\<close>

text \<open>\<open>TriangularMatrix.__init__\<close> keeps one triangle of the array it is given.\<close>

definition TriangularMatrix_init :: "array2 \<Rightarrow> bool \<Rightarrow> matrix" where
  "TriangularMatrix_init array lower =
     TriangularMatrix (if lower then tril array else triu array) lower"

definition ScaledIdentityMatrix_init :: "real \<Rightarrow> nat option \<Rightarrow> error + matrix" where
  "ScaledIdentityMatrix_init scalar n =
     (if scalar = 0 then Inl (ValueError ''scalar must be non-zero'')
      else Inr (ScaledIdentityMatrix scalar n))"

definition PositiveScaledIdentityMatrix_init :: "real \<Rightarrow> nat option \<Rightarrow> error + matrix" where
  "PositiveScaledIdentityMatrix_init scalar n =
     (if scalar \<le> 0 then Inl (ValueError ''Scalar multiplier must be positive.'')
      else if scalar = 0 then Inl (ValueError ''scalar must be non-zero'')
      else Inr (PositiveScaledIdentityMatrix scalar n))"

definition PositiveDiagonalMatrix_init :: "real list \<Rightarrow> error + matrix" where
  "PositiveDiagonalMatrix_init diagonal =
     (if \<not> list_all (\<lambda>d. d > 0) diagonal
      then Inl (ValueError ''Diagonal values must all be positive.'')
      else Inr (PositiveDiagonalMatrix diagonal))"

text \<open>
  The block-diagonal constructors. \<open>cls\<close> is the class being instantiated
  (\<open>type(self)\<close>): the subclasses run their own check and then this one through
  \<open>super().__init__\<close>. \<open>sum(sizes)\<close> raises \<open>TypeError\<close> on an unspecified size.
\<close>

definition SquareBlockDiagonalMatrix_init ::
    "(matrix list \<Rightarrow> matrix) \<Rightarrow> matrix list \<Rightarrow> error + matrix" where
  "SquareBlockDiagonalMatrix_init cls blocks =
     (if \<not> list_all is_SquareMatrix blocks then Inl (ValueError ''All blocks must be square'')
      else if sum_dims (map (\<lambda>b. fst (shape b)) blocks) = None then Inl TypeError
      else Inr (cls blocks))"

definition SymmetricBlockDiagonalMatrix_init ::
    "(matrix list \<Rightarrow> matrix) \<Rightarrow> matrix list \<Rightarrow> error + matrix" where
  "SymmetricBlockDiagonalMatrix_init cls blocks =
     (if \<not> list_all is_SymmetricMatrix blocks
      then Inl (ValueError ''All blocks must be symmetric'')
      else SquareBlockDiagonalMatrix_init cls blocks)"

definition PositiveDefiniteBlockDiagonalMatrix_init :: "matrix list \<Rightarrow> error + matrix" where
  "PositiveDefiniteBlockDiagonalMatrix_init blocks =
     (if \<not> list_all is_PositiveDefiniteMatrix blocks
      then Inl (ValueError ''All blocks must be positive definite'')
      else SymmetricBlockDiagonalMatrix_init PositiveDefiniteBlockDiagonalMatrix blocks)"

text \<open>\<open>len(set(dims)) > 1\<close>: the blocks do not all have the same dimension.\<close>

definition BlockRowMatrix_init :: "matrix list \<Rightarrow> error + matrix" where
  "BlockRowMatrix_init blocks =
     (if length (remdups (map (\<lambda>b. fst (shape b)) blocks)) > 1
      then Inl (ValueError ''All blocks must have same row-dimension.'')
      else if blocks = [] then Inl IndexError
      else if sum_dims (map (\<lambda>b. snd (shape b)) blocks) = None then Inl TypeError
      else Inr (BlockRowMatrix blocks))"

definition BlockColumnMatrix_init :: "matrix list \<Rightarrow> error + matrix" where
  "BlockColumnMatrix_init blocks =
     (if length (remdups (map (\<lambda>b. snd (shape b)) blocks)) > 1
      then Inl (ValueError ''All blocks must have same column-dimension.'')
      else if sum_dims (map (\<lambda>b. fst (shape b)) blocks) = None then Inl TypeError
      else if blocks = [] then Inl IndexError
      else Inr (BlockColumnMatrix blocks))"

text \<open>
  \<open>SquareLowRankUpdateMatrix.__init__\<close>. \<open>cls\<close> is the class being instantiated; an
  omitted inner matrix (\<open>None\<close>) is replaced by an identity of the inner dimension.
\<close>

type_synonym lowrank_class =
  "matrix \<Rightarrow> matrix \<Rightarrow> matrix \<Rightarrow> matrix \<Rightarrow> matrix option \<Rightarrow> int \<Rightarrow> matrix"

definition SquareLowRankUpdateMatrix_init ::
    "lowrank_class \<Rightarrow> matrix \<Rightarrow> matrix \<Rightarrow> matrix \<Rightarrow> matrix option \<Rightarrow> matrix option \<Rightarrow> int
      \<Rightarrow> error + matrix" where
  "SquareLowRankUpdateMatrix_init cls left_factor_matrix right_factor_matrix square_matrix
       inner_square_matrix capacitance_matrix sign =
     (let dim_outer = fst (shape left_factor_matrix);
          dim_inner = snd (shape left_factor_matrix)
      in if fst (shape square_matrix) \<noteq> dim_outer
         then Inl (ValueError ''Inconsistent factor and square matrix shapes'')
         else if fst (shape square_matrix) \<noteq> snd (shape square_matrix)
         then Inl (ValueError ''square_matrix argument must be square'')
         else if shape right_factor_matrix \<noteq> (dim_inner, dim_outer)
         then Inl (ValueError ''Inconsistent factor matrix shapes'')
         else (case inner_square_matrix of
                 None \<Rightarrow> Inr (cls left_factor_matrix right_factor_matrix square_matrix
                               (IdentityMatrix dim_inner) capacitance_matrix sign)
               | Some inner \<Rightarrow>
                   if shape inner \<noteq> (dim_inner, dim_inner)
                   then Inl (ValueError ''inner_square matrix must be square and of shape'')
                   else Inr (cls left_factor_matrix right_factor_matrix square_matrix
                               inner capacitance_matrix sign)))"

section \<open>The numeric backend\<close>

text \<open>
  The dense kernels of scipy that the classes call are not part of the repository; they
  are parameters of the model. \<open>lu_factor\<close> is \<open>scipy.linalg.lu_factor\<close>: the packed
  LU factors and the pivot indices of an array.
\<close>

record backend =
  lu_factor :: "array2 \<Rightarrow> array2 \<times> nat list"

section \<open>Transpose\<close>

text \<open>Python's \<open>not x\<close> for \<open>x\<close> a boolean or \<open>None\<close>.\<close>

fun py_not :: "bool option \<Rightarrow> bool" where
  "py_not None = True"
| "py_not (Some b) = (\<not> b)"

text \<open>
  The property \<open>T\<close> of every class. The classes that inherit \<open>SymmetricMatrix.T\<close>, and
  \<open>SymmetricBlockDiagonalMatrix\<close> and \<open>SymmetricLowRankUpdateMatrix\<close> with their
  subclasses, execute \<open>return self\<close>; the others build the transposed structure.
  \<open>DenseSquareMatrix.T\<close> reads \<open>self.lu_and_piv\<close> first, which factorises the array
  when no factorisation is stored and then sets \<open>_lu_transposed\<close> to \<open>False\<close>.
\<close>

fun T_ref :: "backend \<Rightarrow> matrix \<Rightarrow> error + matrix ref" where
  "T_ref be (MatrixProduct ms) =
     (case sequence_err (map (\<lambda>m. ref_value m (T_ref be m)) (rev ms)) of
        Inl e \<Rightarrow> Inl e
      | Inr ts \<Rightarrow> (case MatrixProduct_init ts of Inl e \<Rightarrow> Inl e | Inr p \<Rightarrow> Inr (New p)))"
| "T_ref be (IdentityMatrix n) = Inr Self"
| "T_ref be (ScaledIdentityMatrix c n) = Inr Self"
| "T_ref be (PositiveScaledIdentityMatrix c n) = Inr Self"
| "T_ref be (DiagonalMatrix d) = Inr Self"
| "T_ref be (PositiveDiagonalMatrix d) = Inr Self"
| "T_ref be (TriangularMatrix a lower) =
     Inr (New (TriangularMatrix_init (array_T a) (\<not> lower)))"
| "T_ref be (InverseTriangularMatrix a lower) =
     Inr (New (InverseTriangularMatrix (array_T a) (\<not> lower)))"
| "T_ref be (TriangularFactoredDefiniteMatrix f s) = Inr Self"
| "T_ref be (TriangularFactoredPositiveDefiniteMatrix f) = Inr Self"
| "T_ref be (DenseDefiniteMatrix a f s) = Inr Self"
| "T_ref be (DensePositiveDefiniteMatrix a f) = Inr Self"
| "T_ref be (DensePositiveDefiniteProductMatrix r p a f) = Inr Self"
| "T_ref be (DenseSquareMatrix a lu t) =
     (case lu of
        None \<Rightarrow> Inr (New (DenseSquareMatrix (array_T a) (Some (lu_factor be a))
                            (Some (py_not (Some False)))))
      | Some lu_and_piv \<Rightarrow>
          Inr (New (DenseSquareMatrix (array_T a) (Some lu_and_piv) (Some (py_not t)))))"
| "T_ref be (InverseLUFactoredSquareMatrix a lu t) =
     Inr (New (InverseLUFactoredSquareMatrix (array_T a) lu (Some (py_not t))))"
| "T_ref be (DenseSymmetricMatrix a v w) = Inr Self"
| "T_ref be (OrthogonalMatrix a) = Inr (New (OrthogonalMatrix (array_T a)))"
| "T_ref be (ScaledOrthogonalMatrix c a) = Inr (New (ScaledOrthogonalMatrix c (array_T a)))"
| "T_ref be (EigendecomposedSymmetricMatrix v w) = Inr Self"
| "T_ref be (EigendecomposedPositiveDefiniteMatrix v w) = Inr Self"
| "T_ref be (SoftAbsRegularisedPositiveDefiniteMatrix c u v w) = Inr Self"
| "T_ref be (SquareBlockDiagonalMatrix bs) =
     (case sequence_err (map (\<lambda>b. ref_value b (T_ref be b)) bs) of
        Inl e \<Rightarrow> Inl e
      | Inr ts \<Rightarrow> (case SquareBlockDiagonalMatrix_init SquareBlockDiagonalMatrix ts of
                    Inl e \<Rightarrow> Inl e | Inr m \<Rightarrow> Inr (New m)))"
| "T_ref be (SymmetricBlockDiagonalMatrix bs) = Inr Self"
| "T_ref be (PositiveDefiniteBlockDiagonalMatrix bs) = Inr Self"
| "T_ref be (DenseRectangularMatrix a) = Inr (New (DenseRectangularMatrix (array_T a)))"
| "T_ref be (BlockRowMatrix bs) =
     (case sequence_err (map (\<lambda>b. ref_value b (T_ref be b)) bs) of
        Inl e \<Rightarrow> Inl e
      | Inr ts \<Rightarrow> (case BlockColumnMatrix_init ts of Inl e \<Rightarrow> Inl e | Inr m \<Rightarrow> Inr (New m)))"
| "T_ref be (BlockColumnMatrix bs) =
     (case sequence_err (map (\<lambda>b. ref_value b (T_ref be b)) bs) of
        Inl e \<Rightarrow> Inl e
      | Inr ts \<Rightarrow> (case BlockRowMatrix_init ts of Inl e \<Rightarrow> Inl e | Inr m \<Rightarrow> Inr (New m)))"
| "T_ref be (SquareLowRankUpdateMatrix l r s k c sg) =
     (case ref_value r (T_ref be r) of Inl e \<Rightarrow> Inl e | Inr rT \<Rightarrow>
      (case ref_value l (T_ref be l) of Inl e \<Rightarrow> Inl e | Inr lT \<Rightarrow>
      (case ref_value s (T_ref be s) of Inl e \<Rightarrow> Inl e | Inr sT \<Rightarrow>
      (case ref_value k (T_ref be k) of Inl e \<Rightarrow> Inl e | Inr kT \<Rightarrow>
      (case (case c of None \<Rightarrow> Inr None
             | Some cm \<Rightarrow> (case ref_value cm (T_ref be cm) of
                             Inl e \<Rightarrow> Inl e | Inr x \<Rightarrow> Inr (Some x))) of
         Inl e \<Rightarrow> Inl e
       | Inr cT \<Rightarrow>
          (case SquareLowRankUpdateMatrix_init SquareLowRankUpdateMatrix rT lT sT (Some kT) cT sg
           of Inl e \<Rightarrow> Inl e | Inr m \<Rightarrow> Inr (New m)))))))"
| "T_ref be (SymmetricLowRankUpdateMatrix l r s k c sg) = Inr Self"
| "T_ref be (PositiveDefiniteLowRankUpdateMatrix l r s k c sg) = Inr Self"

text \<open>The value of \<open>m.T\<close>.\<close>

definition T :: "backend \<Rightarrow> matrix \<Rightarrow> error + matrix" where
  "T be m = ref_value m (T_ref be m)"

text \<open>
  \<open>SymmetricLowRankUpdateMatrix.__init__\<close>: the two identity checks \<open>x.T is not x\<close>,
  then the inherited constructor with \<open>factor_matrix.T\<close> as right factor. Reading
  \<open>.T\<close> of an omitted inner matrix (\<open>None\<close>) raises \<open>AttributeError\<close>.
  \<open>PositiveDefiniteLowRankUpdateMatrix.__init__\<close> passes its arguments on unchanged.
\<close>

definition SymmetricLowRankUpdateMatrix_init ::
    "backend \<Rightarrow> lowrank_class \<Rightarrow> matrix \<Rightarrow> matrix \<Rightarrow> matrix option \<Rightarrow> matrix option \<Rightarrow> int
      \<Rightarrow> error + matrix" where
  "SymmetricLowRankUpdateMatrix_init be cls factor_matrix symmetric_matrix
       inner_symmetric_matrix capacitance_matrix sign =
     (case T_ref be symmetric_matrix of
        Inl e \<Rightarrow> Inl e
      | Inr (New x) \<Rightarrow> Inl (ValueError ''symmetric_matrix must be symmetric'')
      | Inr Self \<Rightarrow>
         (case inner_symmetric_matrix of
            None \<Rightarrow> Inl AttributeError
          | Some inner \<Rightarrow>
             (case T_ref be inner of
                Inl e \<Rightarrow> Inl e
              | Inr (New x) \<Rightarrow> Inl (ValueError ''inner_symmetric_matrix must be symmetric'')
              | Inr Self \<Rightarrow>
                 (case T be factor_matrix of
                    Inl e \<Rightarrow> Inl e
                  | Inr factor_T \<Rightarrow>
                      SquareLowRankUpdateMatrix_init cls factor_matrix factor_T
                        symmetric_matrix (Some inner) capacitance_matrix sign))))"

definition PositiveDefiniteLowRankUpdateMatrix_init ::
    "backend \<Rightarrow> matrix \<Rightarrow> matrix \<Rightarrow> matrix option \<Rightarrow> matrix option \<Rightarrow> int \<Rightarrow> error + matrix" where
  "PositiveDefiniteLowRankUpdateMatrix_init be factor_matrix pos_def_matrix
       inner_pos_def_matrix capacitance_matrix sign =
     SymmetricLowRankUpdateMatrix_init be PositiveDefiniteLowRankUpdateMatrix factor_matrix
       pos_def_matrix inner_pos_def_matrix capacitance_matrix sign"

section \<open>Matrix multiplication of two matrix objects\<close>

text \<open>
  \<open>Matrix.__matmul__(self, other)\<close> for \<open>other\<close> a \<open>Matrix\<close>. Python evaluates
  \<open>A @ B\<close> as \<open>A.__matmul__(B)\<close>; every class inherits this one method, which never
  answers \<open>NotImplemented\<close>, so \<open>__rmatmul__\<close> is not reached for two matrix objects.
\<close>

definition Matrix_matmul :: "matrix \<Rightarrow> matrix \<Rightarrow> error + matrix" where
  "Matrix_matmul self other =
     (if snd (shape self) \<noteq> None \<and> fst (shape other) \<noteq> snd (shape self)
      then Inl (ValueError ''Inconsistent dimensions for matrix multiplication'')
      else if is_MatrixProduct other then MatrixProduct_init (self # matrices other)
      else MatrixProduct_init [self, other])"

text \<open>
  \<open>Matrix.__rmatmul__(self, other)\<close> for \<open>other\<close> a \<open>Matrix\<close>: the reflected
  method, which does flatten a chain standing on the left.
\<close>

definition Matrix_rmatmul :: "matrix \<Rightarrow> matrix \<Rightarrow> error + matrix" where
  "Matrix_rmatmul self other =
     (if fst (shape self) \<noteq> None \<and> snd (shape other) \<noteq> fst (shape self)
      then Inl (ValueError ''Inconsistent dimensions for matrix multiplication'')
      else if is_MatrixProduct other then MatrixProduct_init (matrices other @ [self])
      else MatrixProduct_init [other, self])"

section \<open>Dense array and log-determinant of the identity classes\<close>

text \<open>
  \<open>ImplicitArrayMatrix.array\<close> calls \<open>_construct_array\<close> while the cache is empty, and
  the cache is filled only by a call that returned, so reading \<open>array\<close> of an
  identity or scaled identity is its \<open>_construct_array\<close>. The arguments are the
  attributes the methods read: the scalar and \<open>shape[0]\<close>.
  \<open>PositiveScaledIdentityMatrix\<close> inherits both methods of \<open>ScaledIdentityMatrix\<close>.
\<close>

definition IdentityMatrix_construct_array :: "nat option \<Rightarrow> error + array2" where
  "IdentityMatrix_construct_array shape0 =
     (case shape0 of
        None \<Rightarrow> Inl (RuntimeError
          ''Cannot get array representation for identity matrix with implicit size.'')
      | Some n \<Rightarrow> Inr (identity n))"

definition IdentityMatrix_log_abs_det :: "nat option \<Rightarrow> error + real" where
  "IdentityMatrix_log_abs_det shape0 = Inr 0"

definition ScaledIdentityMatrix_construct_array :: "real \<Rightarrow> nat option \<Rightarrow> error + array2" where
  "ScaledIdentityMatrix_construct_array scalar shape0 =
     (case shape0 of
        None \<Rightarrow> Inl (RuntimeError
          ''Cannot get array representation for scaled identity matrix with implicit size.'')
      | Some n \<Rightarrow> Inr (array_scale scalar (identity n)))"

definition ScaledIdentityMatrix_log_abs_det :: "real \<Rightarrow> nat option \<Rightarrow> error + real" where
  "ScaledIdentityMatrix_log_abs_det scalar shape0 =
     (case shape0 of
        None \<Rightarrow> Inl (RuntimeError
          ''Cannot get log determinant for scaled identity matrix with implicit size.'')
      | Some n \<Rightarrow> Inr (real n * ln \<bar>scalar\<bar>))"

section \<open>What every object holds, and the cached LU factors\<close>

text \<open>
  What holds of every object, whatever it was built from: a numpy array is rectangular,
  and \<open>TriangularMatrix.__init__\<close> stores \<open>np.tril(array)\<close> or \<open>np.triu(array)\<close>, so
  that the stored array is its own lower or upper triangle. This holds of the components of
  an object as well. No shape is constrained.
\<close>

fun wf :: "matrix \<Rightarrow> bool" where
  "wf (MatrixProduct ms) = list_all wf ms"
| "wf (TriangularMatrix a lower) =
     (wf_array a \<and> (if lower then tril a = a else triu a = a))"
| "wf (InverseTriangularMatrix a lower) = wf_array a"
| "wf (DenseSquareMatrix a lu t) = wf_array a"
| "wf (InverseLUFactoredSquareMatrix a lu t) = wf_array a"
| "wf (OrthogonalMatrix a) = wf_array a"
| "wf (ScaledOrthogonalMatrix c a) = wf_array a"
| "wf (DenseRectangularMatrix a) = wf_array a"
| "wf (SquareBlockDiagonalMatrix bs) = list_all wf bs"
| "wf (BlockRowMatrix bs) = list_all wf bs"
| "wf (BlockColumnMatrix bs) = list_all wf bs"
| "wf (SquareLowRankUpdateMatrix l r s k c sg) =
     (wf l \<and> wf r \<and> wf s \<and> wf k \<and> (case c of None \<Rightarrow> True | Some cm \<Rightarrow> wf cm))"
| "wf m = True"

text \<open>
  The objects whose transposes pass every shape check of the constructors: the product
  chain is not empty and the blocks and the four parts of a low-rank update have the shapes
  that \<open>MatrixProduct.__init__\<close>, the block constructors and
  \<open>SquareLowRankUpdateMatrix.__init__\<close> ask for; and the classes that take the array of a
  square matrix hold a square array. No constructor checks the latter: these classes read
  their size off \<open>array.shape[0]\<close> alone.
\<close>

fun well_shaped :: "matrix \<Rightarrow> bool" where
  "well_shaped (MatrixProduct ms) = (ms \<noteq> [] \<and> list_all well_shaped ms)"
| "well_shaped (TriangularMatrix a lower) = (nrows a = ncols a)"
| "well_shaped (InverseTriangularMatrix a lower) = (nrows a = ncols a)"
| "well_shaped (DenseSquareMatrix a lu t) = (nrows a = ncols a)"
| "well_shaped (InverseLUFactoredSquareMatrix a lu t) = (nrows a = ncols a)"
| "well_shaped (OrthogonalMatrix a) = (nrows a = ncols a)"
| "well_shaped (ScaledOrthogonalMatrix c a) = (nrows a = ncols a)"
| "well_shaped (SquareBlockDiagonalMatrix bs) =
     (list_all is_SquareMatrix bs \<and> sum_dims (map (\<lambda>b. fst (shape b)) bs) \<noteq> None
      \<and> list_all well_shaped bs)"
| "well_shaped (BlockRowMatrix bs) =
     (bs \<noteq> [] \<and> length (remdups (map (\<lambda>b. fst (shape b)) bs)) \<le> 1
      \<and> sum_dims (map (\<lambda>b. snd (shape b)) bs) \<noteq> None \<and> list_all well_shaped bs)"
| "well_shaped (BlockColumnMatrix bs) =
     (bs \<noteq> [] \<and> length (remdups (map (\<lambda>b. snd (shape b)) bs)) \<le> 1
      \<and> sum_dims (map (\<lambda>b. fst (shape b)) bs) \<noteq> None \<and> list_all well_shaped bs)"
| "well_shaped (SquareLowRankUpdateMatrix l r s k c sg) =
     (fst (shape s) = fst (shape l) \<and> fst (shape s) = snd (shape s)
      \<and> shape r = (snd (shape l), fst (shape l))
      \<and> shape k = (snd (shape l), snd (shape l))
      \<and> well_shaped l \<and> well_shaped r \<and> well_shaped s \<and> well_shaped k
      \<and> (case c of None \<Rightarrow> True | Some cm \<Rightarrow> well_shaped cm))"
| "well_shaped m = True"

text \<open>
  \<open>DenseSquareMatrix\<close> keeps the LU factors of its array in \<open>_lu_and_piv\<close> and
  \<open>_lu_transposed\<close>, both \<open>None\<close> until the factors are first needed, and
  \<open>InverseLUFactoredSquareMatrix.T\<close> reads its flag through \<open>not\<close>, for which
  \<open>None\<close> counts as \<open>False\<close>. \<open>forget_lu\<close> erases that cache and replaces the flag
  by its truth value, everywhere in an object; \<open>has_lu\<close> holds when the cache is filled
  and the flag is a boolean, everywhere in the object.
\<close>

fun forget_lu :: "matrix \<Rightarrow> matrix" where
  "forget_lu (DenseSquareMatrix a lu t) = DenseSquareMatrix a None None"
| "forget_lu (InverseLUFactoredSquareMatrix a lu t) =
     InverseLUFactoredSquareMatrix a lu (Some (\<not> py_not t))"
| "forget_lu (MatrixProduct ms) = MatrixProduct (map forget_lu ms)"
| "forget_lu (SquareBlockDiagonalMatrix bs) = SquareBlockDiagonalMatrix (map forget_lu bs)"
| "forget_lu (BlockRowMatrix bs) = BlockRowMatrix (map forget_lu bs)"
| "forget_lu (BlockColumnMatrix bs) = BlockColumnMatrix (map forget_lu bs)"
| "forget_lu (SquareLowRankUpdateMatrix l r s k c sg) =
     SquareLowRankUpdateMatrix (forget_lu l) (forget_lu r) (forget_lu s) (forget_lu k)
       (map_option forget_lu c) sg"
| "forget_lu m = m"

fun has_lu :: "matrix \<Rightarrow> bool" where
  "has_lu (DenseSquareMatrix a lu t) = (lu \<noteq> None \<and> t \<noteq> None)"
| "has_lu (InverseLUFactoredSquareMatrix a lu t) = (t \<noteq> None)"
| "has_lu (MatrixProduct ms) = list_all has_lu ms"
| "has_lu (SquareBlockDiagonalMatrix bs) = list_all has_lu bs"
| "has_lu (BlockRowMatrix bs) = list_all has_lu bs"
| "has_lu (BlockColumnMatrix bs) = list_all has_lu bs"
| "has_lu (SquareLowRankUpdateMatrix l r s k c sg) =
     (has_lu l \<and> has_lu r \<and> has_lu s \<and> has_lu k
      \<and> (case c of None \<Rightarrow> True | Some cm \<Rightarrow> has_lu cm))"
| "has_lu m = True"

text \<open>The value of \<open>T\<close> where it returns one.\<close>

definition tr :: "backend \<Rightarrow> matrix \<Rightarrow> matrix" where
  "tr be m = projr (T be m)"

text \<open>
  A transpose that is returned, passes the shape checks in its turn, and has the shape of
  its argument swapped.
\<close>

definition T_ok :: "backend \<Rightarrow> matrix \<Rightarrow> bool" where
  "T_ok be m = (T be m = Inr (tr be m) \<and> well_shaped (tr be m) \<and> fst (shape (tr be m)) = snd (shape m) \<and> snd (shape (tr be m)) = fst (shape m)
      \<and> (is_SquareMatrix m \<longrightarrow> is_SquareMatrix (tr be m)))"

text \<open>
  Two objects that differ in the cached LU factors and in the form of the flag at most, and
  not at all when the first has its cache filled.
\<close>

definition same :: "matrix \<Rightarrow> matrix \<Rightarrow> bool" where
  "same m tt = (forget_lu tt = forget_lu m \<and> (has_lu m \<longrightarrow> tt = m))"

text \<open>Whenever the transpose of the transpose is returned, it is the same as the object.\<close>

definition TT_ok :: "backend \<Rightarrow> matrix \<Rightarrow> bool" where
  "TT_ok be m = (\<forall>t tt. T be m = Inr t \<longrightarrow> T be t = Inr tt \<longrightarrow> same m tt)"

section \<open>Transforms that return the object itself\<close>



section \<open>Properties of the product of two matrix objects\<close>




text \<open>
  C3: the code does not flatten a chain standing on the left. \<open>A @ B\<close> runs
  \<open>A.__matmul__(B)\<close>, which unpacks only the factors of \<open>B\<close>; with \<open>A\<close> a chain and
  \<open>B\<close> a plain matrix the result nests \<open>A\<close> as one factor. The reflected method, which
  Python never calls for two matrix objects, is the one that would unpack \<open>A\<close>.
\<close>

theorem matmul_left_chain_nested:
  "Matrix_matmul (MatrixProduct [DiagonalMatrix [1, 2], DiagonalMatrix [3, 4]])
       (DiagonalMatrix [5, 6])
     = Inr (MatrixProduct [MatrixProduct [DiagonalMatrix [1, 2], DiagonalMatrix [3, 4]],
                           DiagonalMatrix [5, 6]])
   \<and> Matrix_rmatmul (DiagonalMatrix [5, 6])
       (MatrixProduct [DiagonalMatrix [1, 2], DiagonalMatrix [3, 4]])
     = Inr (MatrixProduct [DiagonalMatrix [1, 2], DiagonalMatrix [3, 4], DiagonalMatrix [5, 6]])"
  by (simp add: Matrix_matmul_def Matrix_rmatmul_def MatrixProduct_init_def)

text \<open>The right operand's chain is unpacked, whatever the left operand is.\<close>

lemma matmul_right_chain_flattened:
  "snd (shape A) = None \<or> fst (shape (MatrixProduct ms)) = snd (shape A) \<Longrightarrow>
   Matrix_matmul A (MatrixProduct ms) = Inr (MatrixProduct (A # ms))"
  by (auto simp: Matrix_matmul_def MatrixProduct_init_def)

section \<open>Operations that need a size\<close>

text \<open>
  C4, as the code has it: with the size unspecified, materialising the dense array
  fails for the identity and for the scaled identity, and \<open>log_abs_det\<close> fails for the
  scaled identity; \<open>IdentityMatrix.log_abs_det\<close> needs no size and is 0 whatever
  the size is.
\<close>

theorem unspecified_size_failures:
  "IdentityMatrix_construct_array None
     = Inl (RuntimeError ''Cannot get array representation for identity matrix with implicit size.'')
   \<and> ScaledIdentityMatrix_construct_array scalar None
     = Inl (RuntimeError
         ''Cannot get array representation for scaled identity matrix with implicit size.'')
   \<and> ScaledIdentityMatrix_log_abs_det scalar None
     = Inl (RuntimeError
         ''Cannot get log determinant for scaled identity matrix with implicit size.'')
   \<and> IdentityMatrix_log_abs_det n = Inr 0"
  by (simp add: IdentityMatrix_construct_array_def ScaledIdentityMatrix_construct_array_def
      ScaledIdentityMatrix_log_abs_det_def IdentityMatrix_log_abs_det_def)

text \<open>C4 as stated fails: the log-determinant of an identity of unspecified size is returned.\<close>

theorem identity_log_abs_det_counterexample:
  "\<not> (\<exists>e. IdentityMatrix_log_abs_det None = Inl e)"
  by (simp add: IdentityMatrix_log_abs_det_def)

section \<open>Construction of the symmetric low-rank updates\<close>

text \<open>
  C10: constructing a \<open>SymmetricLowRankUpdateMatrix\<close> or a
  \<open>PositiveDefiniteLowRankUpdateMatrix\<close> on a symmetric base matrix (an instance of
  \<open>SymmetricMatrix\<close>, or any object whose \<open>T\<close> is the object itself) with the inner matrix
  omitted raises the \<open>AttributeError\<close> of reading \<open>None.T\<close> in the symmetry check; and
  whatever the base matrix is, neither constructor returns an object when the inner matrix
  is omitted, so the identity fallback of \<open>SquareLowRankUpdateMatrix.__init__\<close> is never
  reached from these two classes.
\<close>

theorem lowrank_omitted_inner_fails:
  "(is_SymmetricMatrix S \<or> T_ref be S = Inr Self \<longrightarrow>
      SymmetricLowRankUpdateMatrix_init be cls F S None cap sg = Inl AttributeError
      \<and> PositiveDefiniteLowRankUpdateMatrix_init be F S None cap sg = Inl AttributeError)
   \<and> (\<forall>m. SymmetricLowRankUpdateMatrix_init be cls F S None cap sg \<noteq> Inr m)
   \<and> (\<forall>m. PositiveDefiniteLowRankUpdateMatrix_init be F S None cap sg \<noteq> Inr m)"
proof -
  have "T_ref be S = Inr Self" if "is_SymmetricMatrix S"
    using that by (cases S) simp_all
  then show ?thesis
    by (auto simp: SymmetricLowRankUpdateMatrix_init_def
        PositiveDefiniteLowRankUpdateMatrix_init_def split: sum.splits ref.splits)
qed

theorem lowrank_omitted_inner_fails_witness:
  "\<forall>be. is_SymmetricMatrix (DiagonalMatrix [2])
      \<and> T_ref be (DiagonalMatrix [2]) = Inr Self
      \<and> SymmetricLowRankUpdateMatrix_init be SymmetricLowRankUpdateMatrix
          (DenseRectangularMatrix (Array2 1 1 [[1]])) (DiagonalMatrix [2]) None None 1
        = Inl AttributeError
      \<and> PositiveDefiniteLowRankUpdateMatrix_init be
          (DenseRectangularMatrix (Array2 1 1 [[1]])) (DiagonalMatrix [2]) None None 1
        = Inl AttributeError"
proof
  fix be
  have s: "is_SymmetricMatrix (DiagonalMatrix [2])"
    by simp
  from lowrank_omitted_inner_fails [of "DiagonalMatrix [2]" be SymmetricLowRankUpdateMatrix
      "DenseRectangularMatrix (Array2 1 1 [[1]])" None 1] s
  show "is_SymmetricMatrix (DiagonalMatrix [2])
      \<and> T_ref be (DiagonalMatrix [2]) = Inr Self
      \<and> SymmetricLowRankUpdateMatrix_init be SymmetricLowRankUpdateMatrix
          (DenseRectangularMatrix (Array2 1 1 [[1]])) (DiagonalMatrix [2]) None None 1
        = Inl AttributeError
      \<and> PositiveDefiniteLowRankUpdateMatrix_init be
          (DenseRectangularMatrix (Array2 1 1 [[1]])) (DiagonalMatrix [2]) None None 1
        = Inl AttributeError"
    by simp
qed

text \<open>
  C8, as the code has it: both constructors return an object only if the base matrix
  and the inner matrix answer \<open>T\<close> with themselves (the symmetric variants); otherwise
  they fail. The right factor is not an argument: the object built has the transpose
  of the given factor as right factor. Positive-definiteness is not checked.
\<close>

theorem lowrank_symmetry_required:
  "(SymmetricLowRankUpdateMatrix_init be cls F S K cap sg = Inr m \<longrightarrow>
      T_ref be S = Inr Self
      \<and> (\<exists>k FT. K = Some k \<and> T_ref be k = Inr Self \<and> T be F = Inr FT
                \<and> m = cls F FT S k cap sg))
   \<and> (PositiveDefiniteLowRankUpdateMatrix_init be F S K cap sg = Inr m \<longrightarrow>
      T_ref be S = Inr Self
      \<and> (\<exists>k FT. K = Some k \<and> T_ref be k = Inr Self \<and> T be F = Inr FT
                \<and> m = PositiveDefiniteLowRankUpdateMatrix F FT S k cap sg))"
  by (auto simp: SymmetricLowRankUpdateMatrix_init_def PositiveDefiniteLowRankUpdateMatrix_init_def
      SquareLowRankUpdateMatrix_init_def Let_def
      split: sum.splits ref.splits option.splits if_splits)

text \<open>
  C8 as stated fails: a diagonal matrix with a negative entry is not positive definite,
  and the positive-definite low-rank update is built on it all the same.
\<close>

theorem lowrank_not_positive_definite_counterexample:
  "\<not> is_PositiveDefiniteMatrix (DiagonalMatrix [-1])
   \<and> (\<forall>be. PositiveDefiniteLowRankUpdateMatrix_init be
      (DenseRectangularMatrix (Array2 1 1 [[1]])) (DiagonalMatrix [-1])
      (Some (DiagonalMatrix [-1])) None 1
    = Inr (PositiveDefiniteLowRankUpdateMatrix (DenseRectangularMatrix (Array2 1 1 [[1]]))
            (DenseRectangularMatrix (Array2 1 1 [[1]])) (DiagonalMatrix [-1])
            (DiagonalMatrix [-1]) None 1))"
  by (simp add: SymmetricLowRankUpdateMatrix_init_def PositiveDefiniteLowRankUpdateMatrix_init_def
      T_def ref_value_def deref_def SquareLowRankUpdateMatrix_init_def array_T_def tabulate2_def
      entry_def)

theorem lowrank_symmetry_required_witness:
  "\<forall>be. SymmetricLowRankUpdateMatrix_init be SymmetricLowRankUpdateMatrix
          (DenseRectangularMatrix (Array2 1 1 [[1]])) (DiagonalMatrix [2])
          (Some (DiagonalMatrix [3])) None 1
        = Inr (SymmetricLowRankUpdateMatrix (DenseRectangularMatrix (Array2 1 1 [[1]]))
            (DenseRectangularMatrix (Array2 1 1 [[1]])) (DiagonalMatrix [2])
            (DiagonalMatrix [3]) None 1)
      \<and> T_ref be (DiagonalMatrix [2]) = Inr Self
      \<and> T_ref be (DiagonalMatrix [3]) = Inr Self
      \<and> T be (DenseRectangularMatrix (Array2 1 1 [[1]]))
          = Inr (DenseRectangularMatrix (Array2 1 1 [[1]]))"
proof
  fix be
  have built: "SymmetricLowRankUpdateMatrix_init be SymmetricLowRankUpdateMatrix
          (DenseRectangularMatrix (Array2 1 1 [[1]])) (DiagonalMatrix [2])
          (Some (DiagonalMatrix [3])) None 1
        = Inr (SymmetricLowRankUpdateMatrix (DenseRectangularMatrix (Array2 1 1 [[1]]))
            (DenseRectangularMatrix (Array2 1 1 [[1]])) (DiagonalMatrix [2])
            (DiagonalMatrix [3]) None 1)"
    by (simp add: SymmetricLowRankUpdateMatrix_init_def T_def ref_value_def deref_def
        SquareLowRankUpdateMatrix_init_def array_T_def tabulate2_def entry_def)
  from lowrank_symmetry_required [of be SymmetricLowRankUpdateMatrix
      "DenseRectangularMatrix (Array2 1 1 [[1]])" "DiagonalMatrix [2]"
      "Some (DiagonalMatrix [3])" None 1] built
  show "SymmetricLowRankUpdateMatrix_init be SymmetricLowRankUpdateMatrix
          (DenseRectangularMatrix (Array2 1 1 [[1]])) (DiagonalMatrix [2])
          (Some (DiagonalMatrix [3])) None 1
        = Inr (SymmetricLowRankUpdateMatrix (DenseRectangularMatrix (Array2 1 1 [[1]]))
            (DenseRectangularMatrix (Array2 1 1 [[1]])) (DiagonalMatrix [2])
            (DiagonalMatrix [3]) None 1)
      \<and> T_ref be (DiagonalMatrix [2]) = Inr Self
      \<and> T_ref be (DiagonalMatrix [3]) = Inr Self
      \<and> T be (DenseRectangularMatrix (Array2 1 1 [[1]]))
          = Inr (DenseRectangularMatrix (Array2 1 1 [[1]]))"
    by auto
qed

section \<open>Double transpose\<close>

subsection \<open>Dense arrays\<close>

lemma nrows_tabulate2 [simp]: "nrows (tabulate2 r c f) = r"
  and ncols_tabulate2 [simp]: "ncols (tabulate2 r c f) = c"
  by (simp_all add: tabulate2_def)

lemma wf_tabulate2 [simp]: "wf_array (tabulate2 r c f)"
  by (simp add: tabulate2_def wf_array_def list_all_iff)

lemma entry_tabulate2 [simp]: "i < r \<Longrightarrow> j < c \<Longrightarrow> entry (tabulate2 r c f) i j = f i j"
  by (simp add: tabulate2_def entry_def)

lemma tabulate2_cong: "(\<And>i j. i < r \<Longrightarrow> j < c \<Longrightarrow> f i j = g i j) \<Longrightarrow> tabulate2 r c f = tabulate2 r c g"
  by (simp add: tabulate2_def)

lemma tabulate2_entry: "wf_array a \<Longrightarrow> tabulate2 (nrows a) (ncols a) (entry a) = a"
  by (cases a) (auto simp: tabulate2_def wf_array_def entry_def list_all_iff intro!: nth_equalityI)

lemma array_T_T: "wf_array a \<Longrightarrow> array_T (array_T a) = a"
  unfolding array_T_def
  by (subst (3) tabulate2_entry[symmetric], assumption) (auto intro!: tabulate2_cong)

lemma wf_array_T [simp]: "wf_array (array_T a)"
  and nrows_array_T [simp]: "nrows (array_T a) = ncols a"
  and ncols_array_T [simp]: "ncols (array_T a) = nrows a"
  by (simp_all add: array_T_def)

lemma entry_eq_of_tril:
  assumes "tril a = a" "i < nrows a" "j < ncols a" "i < j"
  shows "entry a i j = 0"
proof -
  have "entry (tril a) i j = 0"
    unfolding tril_def using assms(2,3,4) by simp
  then show ?thesis using assms(1) by simp
qed

lemma entry_eq_of_triu:
  assumes "triu a = a" "i < nrows a" "j < ncols a" "j < i"
  shows "entry a i j = 0"
proof -
  have "entry (triu a) i j = 0"
    unfolding triu_def using assms(2,3,4) by simp
  then show ?thesis using assms(1) by simp
qed

lemma triu_T_of_tril:
  assumes "tril a = a"
  shows "triu (array_T a) = array_T a"
proof -
  have h: "\<And>i j. i < ncols a \<Longrightarrow> j < nrows a \<Longrightarrow>
      (if i \<le> j then entry (array_T a) i j else 0) = entry a j i"
    using entry_eq_of_tril [OF assms] by (simp add: array_T_def)
  have "triu (array_T a)
      = tabulate2 (ncols a) (nrows a) (\<lambda>i j. if i \<le> j then entry (array_T a) i j else 0)"
    by (simp add: triu_def)
  also have "\<dots> = tabulate2 (ncols a) (nrows a) (\<lambda>i j. entry a j i)"
    by (rule tabulate2_cong) (rule h)
  also have "\<dots> = array_T a"
    by (simp add: array_T_def)
  finally show ?thesis .
qed

lemma tril_T_of_triu:
  assumes "triu a = a"
  shows "tril (array_T a) = array_T a"
proof -
  have h: "\<And>i j. i < ncols a \<Longrightarrow> j < nrows a \<Longrightarrow>
      (if j \<le> i then entry (array_T a) i j else 0) = entry a j i"
    using entry_eq_of_triu [OF assms] by (simp add: array_T_def)
  have "tril (array_T a)
      = tabulate2 (ncols a) (nrows a) (\<lambda>i j. if j \<le> i then entry (array_T a) i j else 0)"
    by (simp add: tril_def)
  also have "\<dots> = tabulate2 (ncols a) (nrows a) (\<lambda>i j. entry a j i)"
    by (rule tabulate2_cong) (rule h)
  also have "\<dots> = array_T a"
    by (simp add: array_T_def)
  finally show ?thesis .
qed

lemma Triangular_T_T:
  "wf_array a \<Longrightarrow> (if lower then tril a = a else triu a = a) \<Longrightarrow>
   TriangularMatrix_init (array_T a) (\<not> lower) = TriangularMatrix (array_T a) (\<not> lower)
   \<and> TriangularMatrix_init (array_T (array_T a)) lower = TriangularMatrix a lower"
  by (cases lower) (simp_all add: TriangularMatrix_init_def triu_T_of_tril tril_T_of_triu array_T_T)

subsection \<open>The transpose of the composite classes\<close>

lemma sequence_err_map:
  "(\<And>x. x \<in> set xs \<Longrightarrow> f x = Inr (g x)) \<Longrightarrow> sequence_err (map f xs) = Inr (map g xs)"
  by (induction xs) simp_all

lemma T_MatrixProduct:
  "T be (MatrixProduct ms) =
     (case sequence_err (map (T be) (rev ms)) of Inl e \<Rightarrow> Inl e | Inr ts \<Rightarrow> MatrixProduct_init ts)"
  unfolding T_def by (simp add: ref_value_def deref_def split: sum.splits)

lemma T_SquareBlockDiagonalMatrix:
  "T be (SquareBlockDiagonalMatrix bs) =
     (case sequence_err (map (T be) bs) of Inl e \<Rightarrow> Inl e
      | Inr ts \<Rightarrow> SquareBlockDiagonalMatrix_init SquareBlockDiagonalMatrix ts)"
  unfolding T_def by (simp add: ref_value_def deref_def split: sum.splits)

lemma T_BlockRowMatrix:
  "T be (BlockRowMatrix bs) =
     (case sequence_err (map (T be) bs) of Inl e \<Rightarrow> Inl e | Inr ts \<Rightarrow> BlockColumnMatrix_init ts)"
  unfolding T_def by (simp add: ref_value_def deref_def split: sum.splits)

lemma T_BlockColumnMatrix:
  "T be (BlockColumnMatrix bs) =
     (case sequence_err (map (T be) bs) of Inl e \<Rightarrow> Inl e | Inr ts \<Rightarrow> BlockRowMatrix_init ts)"
  unfolding T_def by (simp add: ref_value_def deref_def split: sum.splits)

lemma T_SquareLowRankUpdateMatrix:
  "T be (SquareLowRankUpdateMatrix l r s k c sg) =
     (case T be r of Inl e \<Rightarrow> Inl e | Inr rT \<Rightarrow>
      (case T be l of Inl e \<Rightarrow> Inl e | Inr lT \<Rightarrow>
      (case T be s of Inl e \<Rightarrow> Inl e | Inr sT \<Rightarrow>
      (case T be k of Inl e \<Rightarrow> Inl e | Inr kT \<Rightarrow>
      (case (case c of None \<Rightarrow> Inr None
             | Some cm \<Rightarrow> (case T be cm of Inl e \<Rightarrow> Inl e | Inr x \<Rightarrow> Inr (Some x))) of
         Inl e \<Rightarrow> Inl e
       | Inr cT \<Rightarrow>
           SquareLowRankUpdateMatrix_init SquareLowRankUpdateMatrix rT lT sT (Some kT) cT sg)))))"
  unfolding T_def by (simp add: ref_value_def deref_def split: sum.splits option.splits)

lemma square_shape: "is_SquareMatrix m \<Longrightarrow> snd (shape m) = fst (shape m)"
  by (cases m) simp_all

lemma shape_MatrixProduct:
  "ms \<noteq> [] \<Longrightarrow> shape (MatrixProduct ms) = (fst (shape (hd ms)), snd (shape (last ms)))"
  by (cases ms) (simp_all add: last_map)

lemma shape_BlockRowMatrix:
  "bs \<noteq> [] \<Longrightarrow> shape (BlockRowMatrix bs)
     = (fst (shape (hd bs)), sum_dims (map (\<lambda>b. snd (shape b)) bs))"
  by (cases bs) (simp_all add: comp_def)

lemma shape_BlockColumnMatrix:
  "bs \<noteq> [] \<Longrightarrow> shape (BlockColumnMatrix bs)
     = (sum_dims (map (\<lambda>b. fst (shape b)) bs), snd (shape (hd bs)))"
  by (cases bs) (simp_all add: comp_def)

subsection \<open>The transposes are returned\<close>

lemma T_ok_list:
  assumes "\<forall>x\<in>set ms. T_ok be x"
  shows "sequence_err (map (T be) ms) = Inr (map (tr be) ms)"
    and "list_all well_shaped (map (tr be) ms)"
    and "map (\<lambda>b. fst (shape (tr be b))) ms = map (\<lambda>b. snd (shape b)) ms"
    and "map (\<lambda>b. snd (shape (tr be b))) ms = map (\<lambda>b. fst (shape b)) ms"
    and "list_all is_SquareMatrix ms \<Longrightarrow> list_all is_SquareMatrix (map (tr be) ms)"
proof -
  have ok: "\<And>x. x \<in> set ms \<Longrightarrow> T_ok be x"
    using assms by simp
  show "sequence_err (map (T be) ms) = Inr (map (tr be) ms)"
    by (rule sequence_err_map) (use ok in \<open>simp add: T_ok_def\<close>)
  show "list_all well_shaped (map (tr be) ms)"
    using ok by (simp add: list_all_iff T_ok_def)
  show "map (\<lambda>b. fst (shape (tr be b))) ms = map (\<lambda>b. snd (shape b)) ms"
    using ok by (simp add: T_ok_def)
  show "map (\<lambda>b. snd (shape (tr be b))) ms = map (\<lambda>b. fst (shape b)) ms"
    using ok by (simp add: T_ok_def)
  show "list_all is_SquareMatrix ms \<Longrightarrow> list_all is_SquareMatrix (map (tr be) ms)"
    using ok by (simp add: list_all_iff T_ok_def)
qed

lemma T_ok_MatrixProduct:
  assumes "\<And>x. x \<in> set ms \<Longrightarrow> well_shaped x \<Longrightarrow> T_ok be x" "well_shaped (MatrixProduct ms)"
  shows "T_ok be (MatrixProduct ms)"
    and "tr be (MatrixProduct ms) = MatrixProduct (map (tr be) (rev ms))"
proof -
  have ne: "ms \<noteq> []" and all: "list_all well_shaped ms" using assms(2) by simp_all
  have ih: "\<forall>x\<in>set (rev ms). T_ok be x" using assms(1) all by (simp add: list_all_iff)
  note L = T_ok_list [OF ih]
  have sq: "sequence_err (map (T be) (rev ms)) = Inr (map (tr be) (rev ms))"
    by (rule L(1))
  have t: "T be (MatrixProduct ms) = Inr (MatrixProduct (map (tr be) (rev ms)))"
    unfolding T_MatrixProduct sq using ne by (simp add: MatrixProduct_init_def)
  have h: "T_ok be (hd ms)" and l: "T_ok be (last ms)"
    using assms(1) ne all by (simp_all add: list_all_iff)
  have ne': "map (tr be) (rev ms) \<noteq> []" using ne by simp
  have sh: "fst (shape (MatrixProduct (map (tr be) (rev ms)))) = snd (shape (MatrixProduct ms))
      \<and> snd (shape (MatrixProduct (map (tr be) (rev ms)))) = fst (shape (MatrixProduct ms))"
    unfolding shape_MatrixProduct [OF ne] shape_MatrixProduct [OF ne']
    using ne h l by (simp add: hd_map last_map hd_rev last_rev T_ok_def)
  have trm: "tr be (MatrixProduct ms) = MatrixProduct (map (tr be) (rev ms))"
    by (simp add: tr_def t)
  show "T_ok be (MatrixProduct ms)"
    unfolding T_ok_def trm using t L(2) ne sh by (simp del: shape.simps)
  show "tr be (MatrixProduct ms) = MatrixProduct (map (tr be) (rev ms))"
    by (rule trm)
qed


lemma T_ok_SquareBlockDiagonalMatrix:
  assumes "\<And>x. x \<in> set bs \<Longrightarrow> well_shaped x \<Longrightarrow> T_ok be x" "well_shaped (SquareBlockDiagonalMatrix bs)"
  shows "T_ok be (SquareBlockDiagonalMatrix bs)"
    and "tr be (SquareBlockDiagonalMatrix bs) = SquareBlockDiagonalMatrix (map (tr be) bs)"
proof -
  have sq: "list_all is_SquareMatrix bs" and all: "list_all well_shaped bs"
    and sd: "sum_dims (map (\<lambda>b. fst (shape b)) bs) \<noteq> None"
    using assms(2) by simp_all
  have ih: "\<forall>x\<in>set bs. T_ok be x" using assms(1) all by (simp add: list_all_iff)
  note L = T_ok_list [OF ih]
  have eq: "map (\<lambda>b. snd (shape b)) bs = map (\<lambda>b. fst (shape b)) bs"
    using sq by (simp add: square_shape list_all_iff)
  have dims: "map (\<lambda>b. fst (shape (tr be b))) bs = map (\<lambda>b. fst (shape b)) bs"
    using L(3) eq by simp
  have t: "T be (SquareBlockDiagonalMatrix bs) = Inr (SquareBlockDiagonalMatrix (map (tr be) bs))"
    unfolding T_SquareBlockDiagonalMatrix L(1)
    using L(5) [OF sq] sd by (simp add: SquareBlockDiagonalMatrix_init_def comp_def dims)
  have trm: "tr be (SquareBlockDiagonalMatrix bs) = SquareBlockDiagonalMatrix (map (tr be) bs)"
    by (simp add: tr_def t)
  have sh: "fst (shape (SquareBlockDiagonalMatrix (map (tr be) bs)))
        = snd (shape (SquareBlockDiagonalMatrix bs))
      \<and> snd (shape (SquareBlockDiagonalMatrix (map (tr be) bs)))
        = fst (shape (SquareBlockDiagonalMatrix bs))"
    by (simp add: comp_def dims)
  have w: "well_shaped (SquareBlockDiagonalMatrix (map (tr be) bs))"
    using L(2) L(5) [OF sq] sd by (simp add: comp_def dims)
  show "T_ok be (SquareBlockDiagonalMatrix bs)"
    unfolding T_ok_def trm using t sh w by (simp del: shape.simps well_shaped.simps)
  show "tr be (SquareBlockDiagonalMatrix bs) = SquareBlockDiagonalMatrix (map (tr be) bs)"
    by (rule trm)
qed

lemma T_ok_BlockRowMatrix:
  assumes "\<And>x. x \<in> set bs \<Longrightarrow> well_shaped x \<Longrightarrow> T_ok be x" "well_shaped (BlockRowMatrix bs)"
  shows "T_ok be (BlockRowMatrix bs)"
    and "tr be (BlockRowMatrix bs) = BlockColumnMatrix (map (tr be) bs)"
proof -
  have ne: "bs \<noteq> []" and all: "list_all well_shaped bs"
    and rd: "length (remdups (map (\<lambda>b. fst (shape b)) bs)) \<le> 1"
    and sd: "sum_dims (map (\<lambda>b. snd (shape b)) bs) \<noteq> None"
    using assms(2) by simp_all
  have ih: "\<forall>x\<in>set bs. T_ok be x" using assms(1) all by (simp add: list_all_iff)
  note L = T_ok_list [OF ih]
  have ne': "map (tr be) bs \<noteq> []" using ne by simp
  have t: "T be (BlockRowMatrix bs) = Inr (BlockColumnMatrix (map (tr be) bs))"
    unfolding T_BlockRowMatrix L(1)
    using ne rd sd by (simp add: BlockColumnMatrix_init_def comp_def L(3) L(4))
  have trm: "tr be (BlockRowMatrix bs) = BlockColumnMatrix (map (tr be) bs)"
    by (simp add: tr_def t)
  have h: "T_ok be (hd bs)" using assms(1) ne all by (simp add: list_all_iff)
  have sh: "fst (shape (BlockColumnMatrix (map (tr be) bs))) = snd (shape (BlockRowMatrix bs))
      \<and> snd (shape (BlockColumnMatrix (map (tr be) bs))) = fst (shape (BlockRowMatrix bs))"
    unfolding shape_BlockRowMatrix [OF ne] shape_BlockColumnMatrix [OF ne']
    using ne h by (simp add: comp_def L(3) hd_map T_ok_def)
  have w: "well_shaped (BlockColumnMatrix (map (tr be) bs))"
    using L(2) ne rd sd by (simp add: comp_def L(3) L(4))
  show "T_ok be (BlockRowMatrix bs)"
    unfolding T_ok_def trm using t sh w by (simp del: shape.simps well_shaped.simps)
  show "tr be (BlockRowMatrix bs) = BlockColumnMatrix (map (tr be) bs)"
    by (rule trm)
qed

lemma T_ok_BlockColumnMatrix:
  assumes "\<And>x. x \<in> set bs \<Longrightarrow> well_shaped x \<Longrightarrow> T_ok be x" "well_shaped (BlockColumnMatrix bs)"
  shows "T_ok be (BlockColumnMatrix bs)"
    and "tr be (BlockColumnMatrix bs) = BlockRowMatrix (map (tr be) bs)"
proof -
  have ne: "bs \<noteq> []" and all: "list_all well_shaped bs"
    and rd: "length (remdups (map (\<lambda>b. snd (shape b)) bs)) \<le> 1"
    and sd: "sum_dims (map (\<lambda>b. fst (shape b)) bs) \<noteq> None"
    using assms(2) by simp_all
  have ih: "\<forall>x\<in>set bs. T_ok be x" using assms(1) all by (simp add: list_all_iff)
  note L = T_ok_list [OF ih]
  have ne': "map (tr be) bs \<noteq> []" using ne by simp
  have t: "T be (BlockColumnMatrix bs) = Inr (BlockRowMatrix (map (tr be) bs))"
    unfolding T_BlockColumnMatrix L(1)
    using ne rd sd by (simp add: BlockRowMatrix_init_def comp_def L(3) L(4))
  have trm: "tr be (BlockColumnMatrix bs) = BlockRowMatrix (map (tr be) bs)"
    by (simp add: tr_def t)
  have h: "T_ok be (hd bs)" using assms(1) ne all by (simp add: list_all_iff)
  have sh: "fst (shape (BlockRowMatrix (map (tr be) bs))) = snd (shape (BlockColumnMatrix bs))
      \<and> snd (shape (BlockRowMatrix (map (tr be) bs))) = fst (shape (BlockColumnMatrix bs))"
    unfolding shape_BlockRowMatrix [OF ne'] shape_BlockColumnMatrix [OF ne]
    using ne h by (simp add: comp_def L(4) hd_map T_ok_def)
  have w: "well_shaped (BlockRowMatrix (map (tr be) bs))"
    using L(2) ne rd sd by (simp add: comp_def L(3) L(4))
  show "T_ok be (BlockColumnMatrix bs)"
    unfolding T_ok_def trm using t sh w by (simp del: shape.simps well_shaped.simps)
  show "tr be (BlockColumnMatrix bs) = BlockRowMatrix (map (tr be) bs)"
    by (rule trm)
qed

lemma T_ok_SquareLowRankUpdateMatrix:
  assumes "T_ok be l" "T_ok be r" "T_ok be s" "T_ok be k"
    and "\<And>x. x \<in> set_option c \<Longrightarrow> well_shaped x \<Longrightarrow> T_ok be x"
    and "well_shaped (SquareLowRankUpdateMatrix l r s k c sg)"
  shows "T_ok be (SquareLowRankUpdateMatrix l r s k c sg)"
    and "tr be (SquareLowRankUpdateMatrix l r s k c sg)
      = SquareLowRankUpdateMatrix (tr be r) (tr be l) (tr be s) (tr be k)
               (map_option (tr be) c) sg"
proof -
  have shp: "fst (shape s) = fst (shape l)" "fst (shape s) = snd (shape s)"
      "shape r = (snd (shape l), fst (shape l))" "shape k = (snd (shape l), snd (shape l))"
    using assms(6) by auto
  have c: "(case c of None \<Rightarrow> Inr None
             | Some cm \<Rightarrow> (case T be cm of Inl e \<Rightarrow> Inl e | Inr x \<Rightarrow> Inr (Some x)))
           = Inr (map_option (tr be) c)"
     and cw: "(case map_option (tr be) c of None \<Rightarrow> True | Some cm \<Rightarrow> well_shaped cm)"
    using assms(5,6) by (cases c; simp add: T_ok_def)+
  have t: "T be (SquareLowRankUpdateMatrix l r s k c sg)
      = Inr (SquareLowRankUpdateMatrix (tr be r) (tr be l) (tr be s) (tr be k)
               (map_option (tr be) c) sg)"
    unfolding T_SquareLowRankUpdateMatrix c
    using assms(1-4) shp
    by (simp add: T_ok_def SquareLowRankUpdateMatrix_init_def Let_def prod_eq_iff)
  have trm: "tr be (SquareLowRankUpdateMatrix l r s k c sg)
      = SquareLowRankUpdateMatrix (tr be r) (tr be l) (tr be s) (tr be k)
               (map_option (tr be) c) sg"
    by (simp add: tr_def t)
  show "T_ok be (SquareLowRankUpdateMatrix l r s k c sg)"
    unfolding T_ok_def trm using t assms(1-4) shp cw by (simp add: T_ok_def prod_eq_iff)
  show "tr be (SquareLowRankUpdateMatrix l r s k c sg)
      = SquareLowRankUpdateMatrix (tr be r) (tr be l) (tr be s) (tr be k)
               (map_option (tr be) c) sg"
    by (rule trm)
qed


lemma T_ok: "well_shaped m \<Longrightarrow> T_ok be m"
proof (induction m)
  case (MatrixProduct ms)
  then show ?case by (intro T_ok_MatrixProduct(1)) auto
next
  case (SquareBlockDiagonalMatrix bs)
  then show ?case by (intro T_ok_SquareBlockDiagonalMatrix(1)) auto
next
  case (BlockRowMatrix bs)
  then show ?case by (intro T_ok_BlockRowMatrix(1)) auto
next
  case (BlockColumnMatrix bs)
  then show ?case by (intro T_ok_BlockColumnMatrix(1)) auto
next
  case (SquareLowRankUpdateMatrix l r s k c sg)
  then show ?case by (intro T_ok_SquareLowRankUpdateMatrix(1)) auto
next
  case (TriangularMatrix a lower)
  then show ?case
    by (cases lower) (simp_all add: T_ok_def tr_def T_def ref_value_def deref_def
        TriangularMatrix_init_def tril_def triu_def)
next
  case (DenseSquareMatrix a lu t)
  then show ?case
    by (cases lu) (simp_all add: T_ok_def tr_def T_def ref_value_def deref_def)
qed (simp_all add: T_ok_def tr_def T_def ref_value_def deref_def)


lemma T_ok_all: "list_all well_shaped ms \<Longrightarrow> \<forall>x\<in>set ms. T_ok be x"
  by (simp add: list_all_iff T_ok)

lemma tr_MatrixProduct:
  "well_shaped (MatrixProduct ms) \<Longrightarrow> tr be (MatrixProduct ms) = MatrixProduct (map (tr be) (rev ms))"
  by (rule T_ok_MatrixProduct(2)) (simp_all add: T_ok)

lemma tr_SquareBlockDiagonalMatrix:
  "well_shaped (SquareBlockDiagonalMatrix bs) \<Longrightarrow>
   tr be (SquareBlockDiagonalMatrix bs) = SquareBlockDiagonalMatrix (map (tr be) bs)"
  by (rule T_ok_SquareBlockDiagonalMatrix(2)) (simp_all add: T_ok)

lemma tr_BlockRowMatrix:
  "well_shaped (BlockRowMatrix bs) \<Longrightarrow> tr be (BlockRowMatrix bs) = BlockColumnMatrix (map (tr be) bs)"
  by (rule T_ok_BlockRowMatrix(2)) (simp_all add: T_ok)

lemma tr_BlockColumnMatrix:
  "well_shaped (BlockColumnMatrix bs) \<Longrightarrow> tr be (BlockColumnMatrix bs) = BlockRowMatrix (map (tr be) bs)"
  by (rule T_ok_BlockColumnMatrix(2)) (simp_all add: T_ok)

lemma tr_SquareLowRankUpdateMatrix:
  "well_shaped (SquareLowRankUpdateMatrix l r s k c sg) \<Longrightarrow>
   tr be (SquareLowRankUpdateMatrix l r s k c sg)
     = SquareLowRankUpdateMatrix (tr be r) (tr be l) (tr be s) (tr be k) (map_option (tr be) c) sg"
  by (rule T_ok_SquareLowRankUpdateMatrix(2)) (auto simp: T_ok)


lemma well_shaped_tr: "well_shaped m \<Longrightarrow> well_shaped (tr be m)"
  using T_ok [of m be] by (simp add: T_ok_def)

lemma T_T_returns:
  assumes "well_shaped m"
  shows "\<exists>t tt. T be m = Inr t \<and> T be t = Inr tt"
  using T_ok [OF assms, of be] T_ok [OF well_shaped_tr [OF assms], of be be]
  unfolding T_ok_def by blast

subsection \<open>The transpose of the transpose\<close>

lemma sequence_err_Inr:
  "sequence_err (map f xs) = Inr ys \<Longrightarrow> list_all2 (\<lambda>x y. f x = Inr y) xs ys"
proof (induction xs arbitrary: ys)
  case Nil
  then show ?case by auto
next
  case (Cons x xs)
  then show ?case by (cases ys) (auto split: sum.splits)
qed

lemma same_lists:
  "list_all2 same ms us \<Longrightarrow>
   map forget_lu us = map forget_lu ms \<and> (list_all has_lu ms \<longrightarrow> us = ms)"
  by (induction rule: list_all2_induct) (auto simp: same_def)

lemma TT_list:
  assumes "\<forall>x\<in>set ms. TT_ok be x"
    and "list_all2 (\<lambda>x y. T be x = Inr y) ms ts"
    and "list_all2 (\<lambda>y z. T be y = Inr z) ts us"
  shows "list_all2 same ms us"
proof -
  have "list_all2 (\<lambda>x z. \<exists>y. T be x = Inr y \<and> T be y = Inr z) ms us"
    using assms(2,3) by (rule list_all2_trans [rotated]) blast
  then show ?thesis
    by (rule list.rel_mono_strong) (use assms(1) in \<open>auto simp: TT_ok_def\<close>)
qed

lemma TT_ok_MatrixProduct:
  assumes "\<forall>x\<in>set ms. TT_ok be x"
  shows "TT_ok be (MatrixProduct ms)"
  unfolding TT_ok_def
proof (intro allI impI)
  fix t tt
  assume t: "T be (MatrixProduct ms) = Inr t" and tt: "T be t = Inr tt"
  from t obtain ts where ts: "list_all2 (\<lambda>x y. T be x = Inr y) (rev ms) ts"
    and t_eq: "t = MatrixProduct ts"
    by (auto simp: T_MatrixProduct MatrixProduct_init_def dest!: sequence_err_Inr
        split: sum.splits if_splits)
  from tt obtain us where us: "list_all2 (\<lambda>x y. T be x = Inr y) (rev ts) us"
    and tt_eq: "tt = MatrixProduct us"
    unfolding t_eq
    by (auto simp: T_MatrixProduct MatrixProduct_init_def dest!: sequence_err_Inr
        split: sum.splits if_splits)
  have "list_all2 (\<lambda>x y. T be x = Inr y) (rev (rev ms)) (rev ts)"
    using ts by (simp only: list_all2_rev)
  then have "list_all2 (\<lambda>x y. T be x = Inr y) ms (rev ts)"
    by simp
  from TT_list [OF assms this us] have "list_all2 same ms us" .
  from same_lists [OF this] show "same (MatrixProduct ms) tt"
    by (simp add: same_def tt_eq)
qed

lemma TT_ok_SquareBlockDiagonalMatrix:
  assumes "\<forall>x\<in>set bs. TT_ok be x"
  shows "TT_ok be (SquareBlockDiagonalMatrix bs)"
  unfolding TT_ok_def
proof (intro allI impI)
  fix t tt
  assume t: "T be (SquareBlockDiagonalMatrix bs) = Inr t" and tt: "T be t = Inr tt"
  from t obtain ts where ts: "list_all2 (\<lambda>x y. T be x = Inr y) bs ts"
    and t_eq: "t = SquareBlockDiagonalMatrix ts"
    by (auto simp: T_SquareBlockDiagonalMatrix SquareBlockDiagonalMatrix_init_def
        dest!: sequence_err_Inr split: sum.splits if_splits)
  from tt obtain us where us: "list_all2 (\<lambda>x y. T be x = Inr y) ts us"
    and tt_eq: "tt = SquareBlockDiagonalMatrix us"
    unfolding t_eq
    by (auto simp: T_SquareBlockDiagonalMatrix SquareBlockDiagonalMatrix_init_def
        dest!: sequence_err_Inr split: sum.splits if_splits)
  from same_lists [OF TT_list [OF assms ts us]]
  show "same (SquareBlockDiagonalMatrix bs) tt"
    by (simp add: same_def tt_eq)
qed

lemma TT_ok_BlockRowMatrix:
  assumes "\<forall>x\<in>set bs. TT_ok be x"
  shows "TT_ok be (BlockRowMatrix bs)"
  unfolding TT_ok_def
proof (intro allI impI)
  fix t tt
  assume t: "T be (BlockRowMatrix bs) = Inr t" and tt: "T be t = Inr tt"
  from t obtain ts where ts: "list_all2 (\<lambda>x y. T be x = Inr y) bs ts"
    and t_eq: "t = BlockColumnMatrix ts"
    by (auto simp: T_BlockRowMatrix BlockColumnMatrix_init_def
        dest!: sequence_err_Inr split: sum.splits if_splits)
  from tt obtain us where us: "list_all2 (\<lambda>x y. T be x = Inr y) ts us"
    and tt_eq: "tt = BlockRowMatrix us"
    unfolding t_eq
    by (auto simp: T_BlockColumnMatrix BlockRowMatrix_init_def
        dest!: sequence_err_Inr split: sum.splits if_splits)
  from same_lists [OF TT_list [OF assms ts us]]
  show "same (BlockRowMatrix bs) tt"
    by (simp add: same_def tt_eq)
qed

lemma TT_ok_BlockColumnMatrix:
  assumes "\<forall>x\<in>set bs. TT_ok be x"
  shows "TT_ok be (BlockColumnMatrix bs)"
  unfolding TT_ok_def
proof (intro allI impI)
  fix t tt
  assume t: "T be (BlockColumnMatrix bs) = Inr t" and tt: "T be t = Inr tt"
  from t obtain ts where ts: "list_all2 (\<lambda>x y. T be x = Inr y) bs ts"
    and t_eq: "t = BlockRowMatrix ts"
    by (auto simp: T_BlockColumnMatrix BlockRowMatrix_init_def
        dest!: sequence_err_Inr split: sum.splits if_splits)
  from tt obtain us where us: "list_all2 (\<lambda>x y. T be x = Inr y) ts us"
    and tt_eq: "tt = BlockColumnMatrix us"
    unfolding t_eq
    by (auto simp: T_BlockRowMatrix BlockColumnMatrix_init_def
        dest!: sequence_err_Inr split: sum.splits if_splits)
  from same_lists [OF TT_list [OF assms ts us]]
  show "same (BlockColumnMatrix bs) tt"
    by (simp add: same_def tt_eq)
qed

lemma T_SquareLowRankUpdateMatrix_Inr:
  assumes "T be (SquareLowRankUpdateMatrix l r s k c sg) = Inr t"
  shows "\<exists>lT rT sT kT cT. T be l = Inr lT \<and> T be r = Inr rT \<and> T be s = Inr sT
      \<and> T be k = Inr kT \<and> rel_option (\<lambda>x y. T be x = Inr y) c cT
      \<and> t = SquareLowRankUpdateMatrix rT lT sT kT cT sg"
  using assms unfolding T_SquareLowRankUpdateMatrix
  by (cases c)
    (auto simp: SquareLowRankUpdateMatrix_init_def Let_def split: sum.splits if_splits)

lemma TT_ok_SquareLowRankUpdateMatrix:
  assumes "TT_ok be l" "TT_ok be r" "TT_ok be s" "TT_ok be k"
    and "\<forall>x\<in>set_option c. TT_ok be x"
  shows "TT_ok be (SquareLowRankUpdateMatrix l r s k c sg)"
  unfolding TT_ok_def
proof (intro allI impI)
  fix t tt
  assume t: "T be (SquareLowRankUpdateMatrix l r s k c sg) = Inr t" and tt: "T be t = Inr tt"
  from T_SquareLowRankUpdateMatrix_Inr [OF t]
  obtain lT rT sT kT cT where 1: "T be l = Inr lT" "T be r = Inr rT" "T be s = Inr sT"
      "T be k = Inr kT" and c1: "rel_option (\<lambda>x y. T be x = Inr y) c cT"
    and t_eq: "t = SquareLowRankUpdateMatrix rT lT sT kT cT sg"
    by blast
  from T_SquareLowRankUpdateMatrix_Inr [OF tt [unfolded t_eq]]
  obtain l2 r2 s2 k2 c2 where 2: "T be lT = Inr l2" "T be rT = Inr r2" "T be sT = Inr s2"
      "T be kT = Inr k2" and c2: "rel_option (\<lambda>x y. T be x = Inr y) cT c2"
    and tt_eq: "tt = SquareLowRankUpdateMatrix l2 r2 s2 k2 c2 sg"
    by blast
  have parts: "same l l2" "same r r2" "same s s2" "same k k2"
    using assms(1-4) 1 2 by (auto simp: TT_ok_def)
  have cap: "rel_option same c c2"
    using assms(5) c1 c2 by (cases c; cases cT; cases c2) (auto simp: TT_ok_def)
  then have "map_option forget_lu c2 = map_option forget_lu c"
    and "(case c of None \<Rightarrow> True | Some cm \<Rightarrow> has_lu cm) \<Longrightarrow> c2 = c"
    by (cases c; cases c2; simp add: same_def)+
  with parts show "same (SquareLowRankUpdateMatrix l r s k c sg) tt"
    by (simp add: same_def tt_eq)
qed

lemma TT_ok: "wf m \<Longrightarrow> TT_ok be m"
proof (induction m)
  case (MatrixProduct ms)
  then show ?case by (intro TT_ok_MatrixProduct) (auto simp: list_all_iff)
next
  case (SquareBlockDiagonalMatrix bs)
  then show ?case by (intro TT_ok_SquareBlockDiagonalMatrix) (auto simp: list_all_iff)
next
  case (BlockRowMatrix bs)
  then show ?case by (intro TT_ok_BlockRowMatrix) (auto simp: list_all_iff)
next
  case (BlockColumnMatrix bs)
  then show ?case by (intro TT_ok_BlockColumnMatrix) (auto simp: list_all_iff)
next
  case (SquareLowRankUpdateMatrix l r s k c sg)
  then show ?case by (intro TT_ok_SquareLowRankUpdateMatrix) (auto split: option.splits)
next
  case (TriangularMatrix a lower)
  then show ?case
    using Triangular_T_T [of a lower]
    by (auto simp: TT_ok_def same_def T_def ref_value_def deref_def)
next
  case (DenseSquareMatrix a lu t)
  then show ?case
    by (cases lu; cases t)
      (auto simp: TT_ok_def same_def T_def ref_value_def deref_def array_T_T)
next
  case (InverseLUFactoredSquareMatrix a lu t)
  then show ?case
    by (cases t) (auto simp: TT_ok_def same_def T_def ref_value_def deref_def array_T_T)
qed (auto simp: TT_ok_def same_def T_def ref_value_def deref_def array_T_T)

lemma shape_forget_lu: "shape (forget_lu m) = shape m"
proof (induction m)
  case (MatrixProduct ms)
  then have h: "map (\<lambda>x. shape (forget_lu x)) ms = map shape ms" by simp
  show ?case by (simp add: comp_def h)
next
  case (SquareBlockDiagonalMatrix bs)
  then have h: "map (\<lambda>x. fst (shape (forget_lu x))) bs = map (\<lambda>x. fst (shape x)) bs"
    by simp
  show ?case by (simp add: comp_def h)
next
  case (BlockRowMatrix bs)
  then have h: "map (\<lambda>x. shape (forget_lu x)) bs = map shape bs" by simp
  show ?case by (simp add: comp_def h)
next
  case (BlockColumnMatrix bs)
  then have h: "map (\<lambda>x. shape (forget_lu x)) bs = map shape bs" by simp
  show ?case by (simp add: comp_def h)
qed simp_all

text \<open>
  C7: for every matrix object \<open>M\<close> of every class, whenever \<open>M.T.T\<close> is returned it has
  the shape of \<open>M\<close> and the same class and the same fields as \<open>M\<close>, component by
  component, apart from the cached LU factors of a \<open>DenseSquareMatrix\<close> (the first
  transpose fills a cache that was empty) and from the flag of an
  \<open>InverseLUFactoredSquareMatrix\<close>, which comes back as \<open>False\<close> when it was \<open>None\<close>;
  when the caches are filled and the flags are booleans, \<open>M.T.T\<close> is equal to \<open>M\<close> field
  by field. In particular a \<open>TriangularMatrix\<close> gets back its triangle and its \<open>lower\<close>
  flag, and a \<open>MatrixProduct\<close> its chain of factors. \<open>M.T\<close> and \<open>M.T.T\<close> are
  returned for every object whose shapes pass the checks of the constructors and whose square
  classes hold square arrays.
\<close>

theorem double_transpose:
  assumes "wf m"
  shows "(\<forall>t tt. T be m = Inr t \<and> T be t = Inr tt \<longrightarrow>
            shape tt = shape m \<and> forget_lu tt = forget_lu m \<and> (has_lu m \<longrightarrow> tt = m))
       \<and> (well_shaped m \<longrightarrow> (\<exists>t tt. T be m = Inr t \<and> T be t = Inr tt))"
proof (intro conjI allI impI)
  fix t tt
  assume a: "T be m = Inr t \<and> T be t = Inr tt"
  with TT_ok [OF assms, of be] have s: "same m tt"
    by (auto simp: TT_ok_def)
  then show "forget_lu tt = forget_lu m"
    by (simp add: same_def)
  then have "shape (forget_lu tt) = shape (forget_lu m)"
    by simp
  then show "shape tt = shape m"
    by (simp add: shape_forget_lu)
  assume "has_lu m"
  with s show "tt = m"
    by (simp add: same_def)
next
  assume "well_shaped m"
  then show "\<exists>t tt. T be m = Inr t \<and> T be t = Inr tt"
    by (rule T_T_returns)
qed

theorem double_transpose_witness:
  "\<forall>be. wf (MatrixProduct [TriangularMatrix (Array2 2 2 [[1, 0], [2, 3]]) True,
          DenseSquareMatrix (Array2 2 2 [[1, 2], [3, 4]])
            (Some (Array2 2 2 [[3, 4], [1 / 3, 2 / 3]], [1, 1])) (Some False),
          DenseRectangularMatrix (Array2 2 3 [[1, 2, 3], [4, 5, 6]])])
     \<and> well_shaped (MatrixProduct [TriangularMatrix (Array2 2 2 [[1, 0], [2, 3]]) True,
          DenseSquareMatrix (Array2 2 2 [[1, 2], [3, 4]])
            (Some (Array2 2 2 [[3, 4], [1 / 3, 2 / 3]], [1, 1])) (Some False),
          DenseRectangularMatrix (Array2 2 3 [[1, 2, 3], [4, 5, 6]])])
     \<and> has_lu (MatrixProduct [TriangularMatrix (Array2 2 2 [[1, 0], [2, 3]]) True,
          DenseSquareMatrix (Array2 2 2 [[1, 2], [3, 4]])
            (Some (Array2 2 2 [[3, 4], [1 / 3, 2 / 3]], [1, 1])) (Some False),
          DenseRectangularMatrix (Array2 2 3 [[1, 2, 3], [4, 5, 6]])])
     \<and> (\<exists>t. T be (MatrixProduct [TriangularMatrix (Array2 2 2 [[1, 0], [2, 3]]) True,
          DenseSquareMatrix (Array2 2 2 [[1, 2], [3, 4]])
            (Some (Array2 2 2 [[3, 4], [1 / 3, 2 / 3]], [1, 1])) (Some False),
          DenseRectangularMatrix (Array2 2 3 [[1, 2, 3], [4, 5, 6]])]) = Inr t
        \<and> T be t = Inr (MatrixProduct [TriangularMatrix (Array2 2 2 [[1, 0], [2, 3]]) True,
          DenseSquareMatrix (Array2 2 2 [[1, 2], [3, 4]])
            (Some (Array2 2 2 [[3, 4], [1 / 3, 2 / 3]], [1, 1])) (Some False),
          DenseRectangularMatrix (Array2 2 3 [[1, 2, 3], [4, 5, 6]])]))
     \<and> wf (InverseLUFactoredSquareMatrix (Array2 2 2 [[1, 2], [3, 4]])
          (Array2 2 2 [[3, 4], [1 / 3, 2 / 3]], [1, 1]) None)
     \<and> well_shaped (InverseLUFactoredSquareMatrix (Array2 2 2 [[1, 2], [3, 4]])
          (Array2 2 2 [[3, 4], [1 / 3, 2 / 3]], [1, 1]) None)
     \<and> (\<exists>t tt. T be (InverseLUFactoredSquareMatrix (Array2 2 2 [[1, 2], [3, 4]])
          (Array2 2 2 [[3, 4], [1 / 3, 2 / 3]], [1, 1]) None) = Inr t
        \<and> T be t = Inr tt
        \<and> forget_lu tt = InverseLUFactoredSquareMatrix (Array2 2 2 [[1, 2], [3, 4]])
          (Array2 2 2 [[3, 4], [1 / 3, 2 / 3]], [1, 1]) (Some False))"
proof
  fix be
  let ?m = "MatrixProduct [TriangularMatrix (Array2 2 2 [[1, 0], [2, 3]]) True,
          DenseSquareMatrix (Array2 2 2 [[1, 2], [3, 4]])
            (Some (Array2 2 2 [[3, 4], [1 / 3, 2 / 3]], [1, 1])) (Some False),
          DenseRectangularMatrix (Array2 2 3 [[1, 2, 3], [4, 5, 6]])]"
  let ?n = "InverseLUFactoredSquareMatrix (Array2 2 2 [[1, 2], [3, 4]])
          (Array2 2 2 [[3, 4], [1 / 3, 2 / 3]], [1, 1]) None"
  have w: "wf ?m"
    by (simp add: wf_array_def tril_def tabulate2_def entry_def upt_conv_Cons)
  have s: "well_shaped ?m"
    by simp
  have h: "has_lu ?m"
    by simp
  from double_transpose [OF w, of be] s h
  have m: "\<exists>t. T be ?m = Inr t \<and> T be t = Inr ?m"
    by blast
  have w': "wf ?n"
    by (simp add: wf_array_def)
  have s': "well_shaped ?n"
    by simp
  from double_transpose [OF w', of be] s'
  have "\<exists>t tt. T be ?n = Inr t \<and> T be t = Inr tt \<and> forget_lu tt = forget_lu ?n"
    by blast
  then have n: "\<exists>t tt. T be ?n = Inr t \<and> T be t = Inr tt
      \<and> forget_lu tt = InverseLUFactoredSquareMatrix (Array2 2 2 [[1, 2], [3, 4]])
          (Array2 2 2 [[3, 4], [1 / 3, 2 / 3]], [1, 1]) (Some False)"
    by simp
  from w s h m w' s' n
  show "wf ?m \<and> well_shaped ?m \<and> has_lu ?m \<and> (\<exists>t. T be ?m = Inr t \<and> T be t = Inr ?m)
      \<and> wf ?n \<and> well_shaped ?n
      \<and> (\<exists>t tt. T be ?n = Inr t \<and> T be t = Inr tt
          \<and> forget_lu tt = InverseLUFactoredSquareMatrix (Array2 2 2 [[1, 2], [3, 4]])
              (Array2 2 2 [[3, 4], [1 / 3, 2 / 3]], [1, 1]) (Some False))"
    by blast
qed

section \<open>The object returned by a transpose\<close>




end
